theory Spec2Isabelle
  imports Main "HOL-Library.Word" "HOL-Library.AList"
begin

section \<open>Firebase ID-token verification: the key cache and the verifier\<close>

text \<open>
  The development embeds package \<open>auth\<close>: \<open>NewVerifier\<close>, \<open>Verify\<close>,
  \<open>fetchCertLoop\<close> and \<open>fetchCerts\<close>. The JOSE library, the HTTP client, the JSON
  decoder and the PEM parser are collaborators outside the package: their results enter
  the model as inputs (a parsed token, the outcome of one HTTP exchange) or as function
  parameters (\<open>ParseCompact\<close>, the signature check, the PEM parser).
\<close>

subsection \<open>Durations and instants\<close>

text \<open>\<open>time.Duration\<close> is a signed 64-bit count of nanoseconds; multiplication wraps.\<close>

type_synonym duration = "64 word"

definition Second :: duration where
  "Second = 1000000000"

definition Minute :: duration where
  "Minute = 60 * Second"

text \<open>
  A \<open>time.Time\<close> without monotonic reading, as the comparisons see it: the signed
  64-bit count of seconds since 1 January of year 1, and the nanoseconds within the
  second. \<open>time.Unix(sec, 0)\<close> adds the seconds between year 1 and 1970 to \<open>sec\<close>
  in 64-bit arithmetic, so the sum wraps for \<open>sec\<close> near the top of the range.
  \<open>Before\<close> and \<open>After\<close> compare the seconds as signed numbers, then the
  nanoseconds.
\<close>

datatype instant = Instant (sec: "64 word") (nsec: nat)

definition unixToInternal :: "64 word" where
  "unixToInternal = 62135596800"

definition Unix :: "64 word \<Rightarrow> instant" where
  "Unix s = Instant (s + unixToInternal) 0"

definition Before :: "instant \<Rightarrow> instant \<Rightarrow> bool" where
  "Before t u \<longleftrightarrow> sec t <s sec u \<or> (sec t = sec u \<and> nsec t < nsec u)"

definition After :: "instant \<Rightarrow> instant \<Rightarrow> bool" where
  "After t u \<longleftrightarrow> sec u <s sec t \<or> (sec t = sec u \<and> nsec t > nsec u)"

subsection \<open>The string functions used on the Cache-Control header\<close>

text \<open>\<open>strings.Split(s, ",")\<close> for a one-byte separator: always at least one part.\<close>

fun Split :: "string \<Rightarrow> char \<Rightarrow> string list" where
  "Split [] sep = [[]]"
| "Split (c # s) sep =
     (if c = sep then [] # Split s sep
      else (case Split s sep of
              [] \<Rightarrow> [[c]]
            | p # ps \<Rightarrow> (c # p) # ps))"

text \<open>
  \<open>strings.TrimSpace\<close> removes the runes of \<open>unicode.IsSpace\<close> from both ends. A
  string is a byte sequence, so a white-space rune is one, two or three bytes of UTF-8:
  the six ASCII ones, U+0085, U+00A0, U+1680, U+2000 to U+200A, U+2028, U+2029, U+202F,
  U+205F and U+3000.
\<close>

definition isSpace1 :: "char \<Rightarrow> bool" where
  "isSpace1 c \<longleftrightarrow> c \<in> set [CHR 0x09, CHR 0x0A, CHR 0x0B, CHR 0x0C, CHR 0x0D, CHR 0x20]"

definition isSpace2 :: "char \<Rightarrow> char \<Rightarrow> bool" where
  "isSpace2 c1 c2 \<longleftrightarrow> c1 = CHR 0xC2 \<and> (c2 = CHR 0x85 \<or> c2 = CHR 0xA0)"

definition isSpace3 :: "char \<Rightarrow> char \<Rightarrow> char \<Rightarrow> bool" where
  "isSpace3 c1 c2 c3 \<longleftrightarrow>
     (c1 = CHR 0xE1 \<and> c2 = CHR 0x9A \<and> c3 = CHR 0x80) \<or>
     (c1 = CHR 0xE2 \<and> c2 = CHR 0x80 \<and>
        (of_char c3 \<in> {0x80 .. 0x8A :: nat} \<or> c3 = CHR 0xA8 \<or> c3 = CHR 0xA9 \<or> c3 = CHR 0xAF)) \<or>
     (c1 = CHR 0xE2 \<and> c2 = CHR 0x81 \<and> c3 = CHR 0x9F) \<or>
     (c1 = CHR 0xE3 \<and> c2 = CHR 0x80 \<and> c3 = CHR 0x80)"

fun TrimLeftSpace :: "string \<Rightarrow> string" where
  "TrimLeftSpace (c1 # c2 # c3 # s) =
     (if isSpace1 c1 then TrimLeftSpace (c2 # c3 # s)
      else if isSpace2 c1 c2 then TrimLeftSpace (c3 # s)
      else if isSpace3 c1 c2 c3 then TrimLeftSpace s
      else c1 # c2 # c3 # s)"
| "TrimLeftSpace [c1, c2] =
     (if isSpace1 c1 then TrimLeftSpace [c2]
      else if isSpace2 c1 c2 then []
      else [c1, c2])"
| "TrimLeftSpace [c1] = (if isSpace1 c1 then [] else [c1])"
| "TrimLeftSpace [] = []"

text \<open>The same from the right end, on the reversed bytes.\<close>

fun TrimLeftSpaceRev :: "string \<Rightarrow> string" where
  "TrimLeftSpaceRev (c3 # c2 # c1 # s) =
     (if isSpace1 c3 then TrimLeftSpaceRev (c2 # c1 # s)
      else if isSpace2 c2 c3 then TrimLeftSpaceRev (c1 # s)
      else if isSpace3 c1 c2 c3 then TrimLeftSpaceRev s
      else c3 # c2 # c1 # s)"
| "TrimLeftSpaceRev [c2, c1] =
     (if isSpace1 c2 then TrimLeftSpaceRev [c1]
      else if isSpace2 c1 c2 then []
      else [c2, c1])"
| "TrimLeftSpaceRev [c1] = (if isSpace1 c1 then [] else [c1])"
| "TrimLeftSpaceRev [] = []"

definition TrimRightSpace :: "string \<Rightarrow> string" where
  "TrimRightSpace s = rev (TrimLeftSpaceRev (rev s))"

definition TrimSpace :: "string \<Rightarrow> string" where
  "TrimSpace s = TrimRightSpace (TrimLeftSpace s)"

definition HasPrefix :: "string \<Rightarrow> string \<Rightarrow> bool" where
  "HasPrefix s pre \<longleftrightarrow> length s \<ge> length pre \<and> take (length pre) s = pre"

text \<open>
  \<open>strconv.Atoi\<close> with a 64-bit \<open>int\<close>: an optional sign, then one or more decimal
  digits, and the value must fit the signed 64-bit range. \<open>None\<close> is the error return
  (syntax or range).
\<close>

definition isDigit :: "char \<Rightarrow> bool" where
  "isDigit c \<longleftrightarrow> of_char c \<in> {48 .. 57 :: nat}"

definition digitVal :: "char \<Rightarrow> int" where
  "digitVal c = int (of_char c) - 48"

definition decimal :: "string \<Rightarrow> int" where
  "decimal ds = foldl (\<lambda>n c. n * 10 + digitVal c) 0 ds"

definition Atoi :: "string \<Rightarrow> int option" where
  "Atoi s =
     (case s of
        [] \<Rightarrow> None
      | c # cs \<Rightarrow>
          (let neg = (c = CHR ''-'');
               ds = (if c = CHR ''-'' \<or> c = CHR ''+'' then cs else s)
           in if ds = [] \<or> \<not> list_all isDigit ds then None
              else if neg then (if decimal ds > 2 ^ 63 then None else Some (- decimal ds))
              else (if decimal ds \<ge> 2 ^ 63 then None else Some (decimal ds))))"

subsection \<open>The verifier and its key cache\<close>

datatype publicKey = PublicKey (N: int) (E: int)

text \<open>
  \<open>certs\<close> is the Go map from key id to public key, kept as an association list with
  one entry per key; \<open>haveCerts\<close> is the channel, \<open>True\<close> once it has been closed.
\<close>

type_synonym certMap = "(string \<times> publicKey) list"

record Verifier =
  projectID :: string
  issuer :: string
  certs :: certMap
  haveCerts :: bool

definition NewVerifier :: "string \<Rightarrow> Verifier" where
  "NewVerifier pid =
     \<lparr> projectID = pid,
       issuer = ''https://securetoken.google.com/'' @ pid,
       certs = [],
       haveCerts = False \<rparr>"

subsection \<open>fetchCerts\<close>

text \<open>
  One HTTP exchange as \<open>fetchCerts\<close> sees it: request creation fails, \<open>client.Do\<close>
  fails, or a response arrives whose body either fails to decode as a JSON object of
  strings or decodes to the (key id, PEM text) pairs, listed in the order the \<open>range\<close>
  loop visits them, and whose \<open>Cache-Control\<close> header has the given value (empty
  when the header is absent).
\<close>

datatype httpResult =
    NewRequestErr string
  | DoErr string
  | Response "string + (string \<times> string) list" string

type_synonym pemParser = "string \<Rightarrow> string + publicKey"

text \<open>The loop over the decoded certificates: the first parse error ends it.\<close>

fun parseCerts :: "pemParser \<Rightarrow> (string \<times> string) list \<Rightarrow> certMap \<Rightarrow> string + certMap" where
  "parseCerts pem [] parsedCerts = Inr parsedCerts"
| "parseCerts pem ((key, cert) # rest) parsedCerts =
     (case pem cert of
        Inl err \<Rightarrow> Inl err
      | Inr pk \<Rightarrow> parseCerts pem rest (AList.update key pk parsedCerts))"

text \<open>The loop over the parts of the header; an unparsable number breaks out of it.\<close>

fun maxAgeLoop :: "string list \<Rightarrow> duration \<Rightarrow> duration" where
  "maxAgeLoop [] expiry = expiry"
| "maxAgeLoop (part # parts) expiry =
     (let part = TrimSpace part in
      if HasPrefix part ''max-age='' then
        (case Atoi (drop (length ''max-age='') part) of
           None \<Rightarrow> expiry
         | Some seconds \<Rightarrow> maxAgeLoop parts (word_of_int seconds * Second))
      else maxAgeLoop parts expiry)"

text \<open>
  The result is \<open>Inl\<close> for the panic, and otherwise Go's three return values: the
  parsed certificates (\<open>[]\<close> for \<open>nil\<close>), the expiry and the error (\<open>None\<close> for
  \<open>nil\<close>).
\<close>

definition fetchCerts :: "pemParser \<Rightarrow> httpResult \<Rightarrow> string + (certMap \<times> duration \<times> string option)" where
  "fetchCerts pem r =
     (case r of
        NewRequestErr err \<Rightarrow>
          Inl (''auth: internal error: could not create request (invalid URL?): '' @ err)
      | DoErr err \<Rightarrow> Inr ([], 0, Some err)
      | Response (Inl err) cacheControl \<Rightarrow> Inr ([], 0, Some err)
      | Response (Inr jsonCerts) cacheControl \<Rightarrow>
          (case parseCerts pem jsonCerts [] of
             Inl err \<Rightarrow> Inr ([], 0, Some err)
           | Inr parsedCerts \<Rightarrow>
               (let parts = Split cacheControl CHR '','';
                    expiry = maxAgeLoop parts (10 * Minute);
                    expiry = (if expiry <s 0 then 10 * Minute else expiry)
                in Inr (parsedCerts, expiry, None))))"

subsection \<open>fetchCertLoop\<close>

text \<open>The verifier's shared fields together with the loop's local variables.\<close>

record loopState =
  verifier :: Verifier
  failExpiry :: duration
  firstFetch :: bool

definition loopInit :: "Verifier \<Rightarrow> loopState" where
  "loopInit v = \<lparr> verifier = v, failExpiry = 1 * Second, firstFetch = True \<rparr>"

text \<open>
  One iteration of the loop body up to \<open>time.After(expiry)\<close>: the new state and the
  expiry handed to the timer, or \<open>Inl\<close> when \<open>fetchCerts\<close> panics.
\<close>

definition fetchCertIter :: "pemParser \<Rightarrow> loopState \<Rightarrow> httpResult \<Rightarrow> string + (loopState \<times> duration)" where
  "fetchCertIter pem s r =
     (case fetchCerts pem r of
        Inl p \<Rightarrow> Inl p
      | Inr (cs, expiry, None) \<Rightarrow>
          (let s1 = s\<lparr>verifier := (verifier s)\<lparr>certs := cs\<rparr>\<rparr> in
           if firstFetch s1 \<and> length cs > 0
           then Inr (s1\<lparr>verifier := (verifier s1)\<lparr>haveCerts := True\<rparr>, firstFetch := False\<rparr>, expiry)
           else Inr (s1, expiry))
      | Inr (cs, expiry, Some err) \<Rightarrow>
          (let gotCerts = (length (certs (verifier s)) > 0) in
           if \<not> gotCerts
           then Inr (s\<lparr>failExpiry := failExpiry s * 2\<rparr>, failExpiry s)
           else Inr (s, expiry)))"

text \<open>
  The \<open>select\<close> after each iteration either sees the context done or the timer fire.
  The loop runs as long as its environment supplies exchanges; the run records every
  expiry handed to the timer.
\<close>

datatype selectResult = CtxDone | TimerFired

datatype loopStatus = Panicked string | Returned | Running

fun fetchCertLoop :: "pemParser \<Rightarrow> loopState \<Rightarrow> (httpResult \<times> selectResult) list \<Rightarrow> loopState \<times> duration list \<times> loopStatus" where
  "fetchCertLoop pem s [] = (s, [], Running)"
| "fetchCertLoop pem s ((r, sel) # evs) =
     (case fetchCertIter pem s r of
        Inl p \<Rightarrow> (s, [], Panicked p)
      | Inr (s', expiry) \<Rightarrow>
          (case sel of
             CtxDone \<Rightarrow> (s', [expiry], Returned)
           | TimerFired \<Rightarrow>
               (case fetchCertLoop pem s' evs of
                  (s'', waits, st) \<Rightarrow> (s'', expiry # waits, st))))"

subsection \<open>Tokens as the JOSE library hands them over\<close>

text \<open>
  A decoded JSON value, as far as \<open>Verify\<close> looks into it: the type assertions are
  on the top-level value only. A number is kept as the \<open>int64\<close> that the library's
  time accessor converts it to.
\<close>

datatype jvalue = JNull | JBool bool | JNumber "64 word" | JString string | JArray | JObject

type_synonym claimsMap = "string \<Rightarrow> jvalue option"

text \<open>
  The payload is either a \<open>map[string]interface{}\<close> or a value of another Go type,
  given by the name that \<open>%T\<close> prints.
\<close>

datatype payloadValue = ClaimsMap claimsMap | OtherPayload string

record jwsToken =
  Protected :: claimsMap
  Payload :: payloadValue
  Signature :: string

text \<open>
  The type assertions \<open>x.(string)\<close> and \<open>x.(bool)\<close> in their two-value form: the
  zero value and \<open>False\<close> when the value is absent or of another type.
\<close>

definition asString :: "jvalue option \<Rightarrow> string \<times> bool" where
  "asString x = (case x of Some (JString s) \<Rightarrow> (s, True) | _ \<Rightarrow> ([], False))"

definition asBool :: "jvalue option \<Rightarrow> bool \<times> bool" where
  "asBool x = (case x of Some (JBool b) \<Rightarrow> (b, True) | _ \<Rightarrow> (False, False))"

text \<open>
  The library's \<open>Claims.GetTime\<close>, behind \<open>Expiration\<close> and \<open>IssuedAt\<close>: a numeric
  claim is handed to \<open>time.Unix\<close> as seconds since the epoch; anything else yields
  the zero \<open>time.Time\<close> (1 January of year 1) and \<open>False\<close>.
\<close>

definition zeroTime :: instant where
  "zeroTime = Instant 0 0"

definition GetTime :: "claimsMap \<Rightarrow> string \<Rightarrow> instant \<times> bool" where
  "GetTime claims key =
     (case claims key of Some (JNumber n) \<Rightarrow> (Unix n, True) | _ \<Rightarrow> (zeroTime, False))"

definition Expiration :: "claimsMap \<Rightarrow> instant \<times> bool" where
  "Expiration claims = GetTime claims ''exp''"

definition IssuedAt :: "claimsMap \<Rightarrow> instant \<times> bool" where
  "IssuedAt claims = GetTime claims ''iat''"

subsection \<open>Verify\<close>

record User =
  ID :: string
  SignInProvider :: string
  EmailVerified :: bool
  Email :: string

text \<open>
  An error value is what the source builds it from: \<open>fmt.Errorf\<close> with its format
  and arguments, \<open>errors.New\<close> with its text, or the context's own error
  (\<open>ctx.Err()\<close>).
\<close>

datatype ctxError = Canceled | DeadlineExceeded

datatype error = Errorf string "string list" | ErrorsNew string | CtxErr ctxError

text \<open>
  What the \<open>select\<close> in \<open>Verify\<close> yields when it is reached: the context is done
  first, or \<open>haveCerts\<close> is closed first, and then the read lock is taken again and
  \<open>v.certs\<close> is whatever the refresh loop has published by that time.
\<close>

datatype certsWait = Done ctxError | HaveCertsClosed certMap

type_synonym tokenParser = "string \<Rightarrow> string + jwsToken"
type_synonym signatureCheck = "jwsToken \<Rightarrow> publicKey \<Rightarrow> string option"

definition Verify ::
  "tokenParser \<Rightarrow> signatureCheck \<Rightarrow> Verifier \<Rightarrow> certsWait \<Rightarrow> instant \<Rightarrow> string \<Rightarrow> error + User" where
  "Verify ParseCompact tokVerify v wait now token =
     (case ParseCompact token of
        Inl err \<Rightarrow> Inl (Errorf ''auth: parse error: %v'' [err])
      | Inr tok \<Rightarrow>
     (case asString (Protected tok ''alg'') of (alg, ok) \<Rightarrow>
      if \<not> ok \<or> alg \<noteq> ''RS256'' then Inl (Errorf ''auth: alg is %s, not RS256'' [alg])
      else
     (case asString (Protected tok ''kid'') of (kid, ok) \<Rightarrow>
      if \<not> ok then Inl (ErrorsNew ''auth: invalid kid'')
      else
     (case (if length (certs v) = 0
            then (case wait of Done e \<Rightarrow> Inl e | HaveCertsClosed cs \<Rightarrow> Inr cs)
            else Inr (certs v)) of
        Inl e \<Rightarrow> Inl (CtxErr e)
      | Inr cs \<Rightarrow>
     (case map_of cs kid of
        None \<Rightarrow> Inl (Errorf ''auth: unknown kid: %s'' [kid])
      | Some key \<Rightarrow>
     (case tokVerify tok key of
        Some err \<Rightarrow> Inl (Errorf ''auth: verification failure: %v'' [err])
      | None \<Rightarrow>
     (case Payload tok of
        OtherPayload ty \<Rightarrow> Inl (Errorf ''auth: unexpected payload type: %T'' [ty])
      | ClaimsMap claims \<Rightarrow>
     (case Expiration claims of (exp, ok) \<Rightarrow>
      if \<not> ok \<or> Before exp now then Inl (ErrorsNew ''auth: expired token'')
      else
     (case IssuedAt claims of (iat, ok) \<Rightarrow>
      if \<not> ok \<or> After iat now then Inl (ErrorsNew ''auth: token issued in the future'')
      else
     (case asString (claims ''aud'') of (aud, ok) \<Rightarrow>
      if \<not> ok \<or> aud \<noteq> projectID v then Inl (Errorf ''auth: unexpected project ID (%q)'' [aud])
      else
     (case asString (claims ''iss'') of (iss, ok) \<Rightarrow>
      if \<not> ok \<or> iss \<noteq> issuer v then Inl (Errorf ''auth: unexpected issuer (%q)'' [iss])
      else
     (let sub = fst (asString (claims ''sub''));
          userID = fst (asString (claims ''user_id''))
      in if sub = [] \<or> userID = [] \<or> sub \<noteq> userID
         then Inl (Errorf ''auth: invalid sub or user_id (%q / %q)'' [sub, userID])
         else Inr \<lparr> ID = userID,
                    SignInProvider = fst (asString (claims ''sign_in_provider'')),
                    EmailVerified = fst (asBool (claims ''email_verified'')),
                    Email = fst (asString (claims ''email'')) \<rparr>))))))))))))"

subsection \<open>Predicates and concrete inputs used in the statements\<close>


text \<open>
  The relation the loop keeps between its flag, the channel and the map: the channel is
  closed exactly when \<open>firstFetch\<close> has been cleared, and until then the map is empty.
\<close>

definition loopInv :: "loopState \<Rightarrow> bool" where
  "loopInv s \<longleftrightarrow> (haveCerts (verifier s) \<longleftrightarrow> \<not> firstFetch s) \<and>
                 (\<not> haveCerts (verifier s) \<longrightarrow> certs (verifier s) = [])"

text \<open>A PEM parser, a key, two responses and two states for the evaluations.\<close>

definition examplePem :: pemParser where
  "examplePem s = (if s = ''bad'' then Inl ''invalid key'' else Inr (PublicKey (int (length s)) 65537))"

definition exampleKey :: publicKey where
  "exampleKey = PublicKey 3 65537"

definition oneKey :: httpResult where
  "oneKey = Response (Inr [(''k1'', ''abc'')]) []"

definition noKeys :: httpResult where
  "noKeys = Response (Inr []) []"

definition start :: loopState where
  "start = loopInit (NewVerifier ''demo'')"

definition loaded :: Verifier where
  "loaded = (NewVerifier ''demo'')\<lparr>certs := [(''k1'', exampleKey)], haveCerts := True\<rparr>"

text \<open>
  The numbers the header loop reads, in order: one entry for each part that starts with
  \<open>max-age=\<close> after trimming, \<open>None\<close> where \<open>Atoi\<close> fails. \<open>lastMaxAge\<close> is
  the loop on these entries alone.
\<close>

definition maxAgeValues :: "string \<Rightarrow> int option list" where
  "maxAgeValues cacheControl =
     map (\<lambda>part. Atoi (drop (length ''max-age='') part))
       (filter (\<lambda>part. HasPrefix part ''max-age='') (map TrimSpace (Split cacheControl CHR '','')))"

fun lastMaxAge :: "int option list \<Rightarrow> duration \<Rightarrow> duration" where
  "lastMaxAge [] expiry = expiry"
| "lastMaxAge (None # vs) expiry = expiry"
| "lastMaxAge (Some seconds # vs) expiry = lastMaxAge vs (word_of_int seconds * Second)"

text \<open>
  An error built by \<open>fmt.Errorf\<close> or \<open>errors.New\<close> carries a message and nothing
  else; its fixed text is the format or the message.
\<close>

fun messageOnly :: "error \<Rightarrow> bool" where
  "messageOnly (Errorf format args) = True"
| "messageOnly (ErrorsNew text) = True"
| "messageOnly (CtxErr e) = False"

fun errorText :: "error \<Rightarrow> string" where
  "errorText (Errorf format args) = format"
| "errorText (ErrorsNew text) = text"
| "errorText (CtxErr e) = []"

definition verifyTexts :: "string list" where
  "verifyTexts =
     [''auth: parse error: %v'',
      ''auth: alg is %s, not RS256'',
      ''auth: invalid kid'',
      ''auth: unknown kid: %s'',
      ''auth: verification failure: %v'',
      ''auth: unexpected payload type: %T'',
      ''auth: expired token'',
      ''auth: token issued in the future'',
      ''auth: unexpected project ID (%q)'',
      ''auth: unexpected issuer (%q)'',
      ''auth: invalid sub or user_id (%q / %q)'']"

definition exampleClaims :: claimsMap where
  "exampleClaims =
     [''exp'' \<mapsto> JNumber 2000, ''iat'' \<mapsto> JNumber 1000,
      ''aud'' \<mapsto> JString ''demo'', ''iss'' \<mapsto> JString ''https://securetoken.google.com/demo'',
      ''sub'' \<mapsto> JString ''u1'', ''user_id'' \<mapsto> JString ''u1'',
      ''email'' \<mapsto> JString ''foo@example.com'', ''email_verified'' \<mapsto> JBool True,
      ''sign_in_provider'' \<mapsto> JNumber 7]"

definition exampleToken :: jwsToken where
  "exampleToken =
     \<lparr> Protected = [''alg'' \<mapsto> JString ''RS256'', ''kid'' \<mapsto> JString ''k1''],
       Payload = ClaimsMap exampleClaims,
       Signature = ''sig'' \<rparr>"

definition exampleParse :: tokenParser where
  "exampleParse token =
     (if token = ''good'' then Inr exampleToken
      else if token = ''hs256'' then Inr (exampleToken\<lparr>Protected := [''alg'' \<mapsto> JString ''HS256'', ''kid'' \<mapsto> JString ''k1'']\<rparr>)
      else if token = ''nokid'' then Inr (exampleToken\<lparr>Protected := [''alg'' \<mapsto> JString ''RS256'']\<rparr>)
      else if token = ''scalar'' then Inr (exampleToken\<lparr>Payload := OtherPayload ''string''\<rparr>)
      else if token = ''nosub'' then Inr (exampleToken\<lparr>Payload := ClaimsMap (exampleClaims(''user_id'' := None))\<rparr>)
      else Inl ''not a compact JWS'')"

definition exampleSig :: signatureCheck where
  "exampleSig tok key =
     (if Signature tok = ''sig'' \<and> key = exampleKey then None
      else Some ''crypto/rsa: verification error'')"

section \<open>Properties of the refresh loop\<close>

lemmas example_defs = examplePem_def exampleKey_def oneKey_def noKeys_def start_def loaded_def

lemmas eval_defs = fetchCertIter_def fetchCerts_def loopInit_def NewVerifier_def
  TrimSpace_def TrimRightSpace_def HasPrefix_def Second_def Minute_def word_sless_alt

subsection \<open>How one iteration depends on the outcome of the fetch\<close>

lemma parseCerts_fails:
  "(key, cert) \<in> set js \<Longrightarrow> pem cert = Inl err \<Longrightarrow> \<exists>e. parseCerts pem js acc = Inl e"
proof (induction js arbitrary: acc)
  case Nil
  then show ?case by simp
next
  case (Cons a js)
  obtain k c where a: "a = (k, c)" by (cases a)
  show ?case
  proof (cases "pem c")
    case (Inl e)
    then show ?thesis by (simp add: a)
  next
    case (Inr pk)
    with Cons a have "(key, cert) \<in> set js" by auto
    from Cons.IH [of "AList.update k pk acc"] this Cons.prems(2) show ?thesis by (simp add: a Inr)
  qed
qed

lemma fetchCerts_error_shape:
  "fetchCerts pem r = Inr (cs, e, Some err) \<Longrightarrow> cs = [] \<and> e = 0"
  by (auto simp: fetchCerts_def Let_def split: httpResult.splits sum.splits)

lemma fetchCertIter_failure:
  assumes "fetchCerts pem r = Inr (cs, e, Some err)"
  shows "fetchCertIter pem s r =
           (if certs (verifier s) = []
            then Inr (s\<lparr>failExpiry := failExpiry s * 2\<rparr>, failExpiry s)
            else Inr (s, 0))"
  using assms fetchCerts_error_shape [OF assms] by (simp add: fetchCertIter_def)

lemma fetchCertIter_success:
  assumes "fetchCerts pem r = Inr (cs, e, None)"
  shows "fetchCertIter pem s r =
           (if firstFetch s \<and> cs \<noteq> []
            then Inr (s\<lparr>verifier := (verifier s)\<lparr>certs := cs, haveCerts := True\<rparr>, firstFetch := False\<rparr>, e)
            else Inr (s\<lparr>verifier := (verifier s)\<lparr>certs := cs\<rparr>\<rparr>, e))"
  using assms by (simp add: fetchCertIter_def Let_def)

lemma fetchCerts_cases:
  obtains (panic) p where "fetchCerts pem r = Inl p"
  | (ok) cs e where "fetchCerts pem r = Inr (cs, e, None)"
  | (err) cs e x where "fetchCerts pem r = Inr (cs, e, Some x)"
  by (cases "fetchCerts pem r") (auto, metis option.exhaust)

text \<open>
  C9. Parsing the key set is all or nothing: when any one certificate of the response
  fails to parse, \<open>fetchCerts\<close> returns an error with no certificates, and the iteration
  of the loop leaves the verifier, and so the published map, as it was.
\<close>

theorem fetchCerts_all_or_nothing:
  assumes "(key, cert) \<in> set jsonCerts" and "pem cert = Inl err"
  shows "(\<exists>e. fetchCerts pem (Response (Inr jsonCerts) cacheControl) = Inr ([], 0, Some e)) \<and>
         (\<exists>s' d. fetchCertIter pem s (Response (Inr jsonCerts) cacheControl) = Inr (s', d) \<and>
                  verifier s' = verifier s)"
proof -
  from assms parseCerts_fails [of key cert jsonCerts pem err "[]"]
  obtain e where "parseCerts pem jsonCerts [] = Inl e" by blast
  then have f: "fetchCerts pem (Response (Inr jsonCerts) cacheControl) = Inr ([], 0, Some e)"
    by (simp add: fetchCerts_def)
  show ?thesis using f fetchCertIter_failure [OF f, of s] by auto
qed

theorem fetchCerts_all_or_nothing_witness:
  "(''k2'', ''bad'') \<in> set [(''k1'', ''abc''), (''k2'', ''bad'')] \<and>
   examplePem ''bad'' = Inl ''invalid key'' \<and>
   (\<exists>e. fetchCerts examplePem (Response (Inr [(''k1'', ''abc''), (''k2'', ''bad'')]) ''max-age=60'') =
          Inr ([], 0, Some e)) \<and>
   (\<exists>s' d. fetchCertIter examplePem (loopInit loaded)
              (Response (Inr [(''k1'', ''abc''), (''k2'', ''bad'')]) ''max-age=60'') = Inr (s', d) \<and>
            verifier s' = verifier (loopInit loaded))"
proof -
  have m: "(''k2'', ''bad'') \<in> set [(''k1'', ''abc''), (''k2'', ''bad'')]" by simp
  have b: "examplePem ''bad'' = Inl ''invalid key''" by (simp add: examplePem_def)
  from fetchCerts_all_or_nothing [where pem = examplePem and cert = "''bad''", OF m b,
      of "''max-age=60''" "loopInit loaded"] m b
  show ?thesis by blast
qed

subsection \<open>The relation between flag, channel and map\<close>

lemma loopInv_iter:
  assumes "loopInv s" and "fetchCertIter pem s r = Inr (s', d)"
  shows "loopInv s'"
proof (cases rule: fetchCerts_cases [of pem r])
  case (panic p)
  with assms show ?thesis by (simp add: fetchCertIter_def)
next
  case (ok cs e)
  from assms fetchCertIter_success [OF ok, of s] show ?thesis
    by (auto simp: loopInv_def split: if_splits)
next
  case (err cs e x)
  from assms fetchCertIter_failure [OF err, of s] show ?thesis
    by (auto simp: loopInv_def split: if_splits)
qed

lemma loopInv_run:
  "loopInv s \<Longrightarrow> fetchCertLoop pem s evs = (s', waits, st) \<Longrightarrow> loopInv s'"
proof (induction evs arbitrary: s waits)
  case Nil
  then show ?case by simp
next
  case (Cons ev evs)
  obtain r sel where ev: "ev = (r, sel)" by (cases ev)
  show ?case
  proof (cases "fetchCertIter pem s r")
    case (Inl p)
    with Cons.prems ev show ?thesis by simp
  next
    case (Inr b)
    obtain s1 d where b: "b = (s1, d)" by (cases b)
    have inv1: "loopInv s1" using loopInv_iter [OF Cons.prems(1)] Inr b by simp
    show ?thesis
    proof (cases sel)
      case CtxDone
      with Cons.prems ev Inr b inv1 show ?thesis by simp
    next
      case TimerFired
      obtain s2 w2 st2 where run: "fetchCertLoop pem s1 evs = (s2, w2, st2)"
        by (cases "fetchCertLoop pem s1 evs")
      with Cons.prems ev Inr b TimerFired have "s' = s2" and "st = st2" by simp_all
      with Cons.IH [OF inv1, of w2] run show ?thesis by simp
    qed
  qed
qed

lemma loopInv_init: "loopInv (loopInit (NewVerifier pid))"
  by (simp add: loopInv_def loopInit_def NewVerifier_def)

text \<open>
  What one iteration does to the published map, in every state the loop reaches from
  \<open>NewVerifier\<close>: the map is empty as long as the channel is open, the iteration that
  closes the channel publishes at least one key, a fetch without error replaces the map
  by the parsed one, and a fetch with an error leaves it as it was.
\<close>

lemma snapshot_after_iteration:
  assumes run: "fetchCertLoop pem (loopInit (NewVerifier pid)) evs = (s, waits, st)"
    and step: "fetchCertIter pem s r = Inr (s', d)"
  shows "(\<not> haveCerts (verifier s) \<longrightarrow> certs (verifier s) = []) \<and>
         (\<not> haveCerts (verifier s) \<and> haveCerts (verifier s') \<longrightarrow> certs (verifier s') \<noteq> []) \<and>
         (case fetchCerts pem r of
            Inr (cs, e, None) \<Rightarrow> certs (verifier s') = cs
          | _ \<Rightarrow> certs (verifier s') = certs (verifier s))"
proof -
  have inv: "loopInv s" using loopInv_run [OF loopInv_init run] .
  show ?thesis
  proof (cases rule: fetchCerts_cases [of pem r])
    case (panic p)
    with step show ?thesis by (simp add: fetchCertIter_def)
  next
    case (ok cs e)
    from step fetchCertIter_success [OF ok, of s] inv ok show ?thesis
      by (auto simp: loopInv_def split: if_splits)
  next
    case (err cs e x)
    from step fetchCertIter_failure [OF err, of s] inv err show ?thesis
      by (auto simp: loopInv_def split: if_splits)
  qed
qed

text \<open>
  C1. The published map does not stay non-empty: the loop guards
  \<open>close(v.haveCerts)\<close> by \<open>len(certs) > 0\<close> but assigns \<open>v.certs = certs\<close> after
  every fetch without error. After a response with one key, a response that decodes to
  no key at all replaces the published map by the empty one, while the channel, "closed
  when we have certs", stays closed.
\<close>

theorem published_snapshot_can_be_empty:
  "fetchCertLoop examplePem start [(oneKey, TimerFired), (noKeys, TimerFired)] =
     (\<lparr>verifier = loaded\<lparr>certs := []\<rparr>, failExpiry = 1 * Second, firstFetch = False\<rparr>,
      [10 * Minute, 10 * Minute], Running) \<and>
   haveCerts (loaded\<lparr>certs := []\<rparr>) \<and> certs (loaded\<lparr>certs := []\<rparr>) = []"
  by (simp add: example_defs eval_defs)

theorem published_snapshot_can_be_empty_witness:
  "certs (verifier (fst (fetchCertLoop examplePem start [(oneKey, TimerFired), (noKeys, TimerFired)]))) = [] \<and>
   haveCerts (verifier (fst (fetchCertLoop examplePem start [(oneKey, TimerFired), (noKeys, TimerFired)])))"
  using published_snapshot_can_be_empty by simp

text \<open>
  C2. With a key published, a failed fetch hands the timer the zero expiry that
  \<open>fetchCerts\<close> returns beside its error: the next attempt is due at once, not after
  the ten-minute default.
\<close>

theorem failure_with_snapshot_retries_at_once:
  "fetchCertLoop examplePem start [(oneKey, TimerFired), (DoErr ''timeout'', TimerFired)] =
     (\<lparr>verifier = loaded, failExpiry = 1 * Second, firstFetch = False\<rparr>, [10 * Minute, 0], Running) \<and>
   (0 :: duration) \<noteq> 10 * Minute"
  by (simp add: example_defs eval_defs)


subsection \<open>The cold-start back-off\<close>


lemma sint_seconds:
  assumes "- 9223372036 \<le> n" and "n \<le> 9223372036"
  shows "sint (word_of_int n * Second) = n * 1000000000"
proof -
  have eq: "word_of_int n * Second = (word_of_int (n * 1000000000) :: 64 word)"
    by (simp add: Second_def)
  have s: "sint (word_of_int x :: 64 word) = signed_take_bit 63 x" for x
    by (simp add: sint_sbintrunc')
  have "signed_take_bit 63 (n * 1000000000) = n * 1000000000"
    using assms by (intro signed_take_bit_int_eq_self) simp_all
  then show ?thesis unfolding eq s .
qed





subsection \<open>The expiry of a successful fetch\<close>

lemma maxAgeLoop_values:
  "maxAgeLoop parts expiry =
     lastMaxAge (map (\<lambda>part. Atoi (drop (length ''max-age='') part))
                  (filter (\<lambda>part. HasPrefix part ''max-age='') (map TrimSpace parts))) expiry"
  by (induction parts arbitrary: expiry) (simp_all add: Let_def split: option.splits)

lemma lastMaxAge_all_parse:
  "lastMaxAge (map Some ns @ [Some n]) expiry = word_of_int n * Second"
  by (induction ns arbitrary: expiry) simp_all

lemma fetchCerts_expiry:
  assumes "parseCerts pem jsonCerts [] = Inr parsedCerts"
  shows "fetchCerts pem (Response (Inr jsonCerts) cacheControl) =
           Inr (parsedCerts,
                (let expiry = lastMaxAge (maxAgeValues cacheControl) (10 * Minute)
                 in if expiry <s 0 then 10 * Minute else expiry), None)"
  using assms by (simp add: fetchCerts_def maxAgeLoop_values maxAgeValues_def Let_def)

lemma ten_minutes_not_negative: "\<not> (10 * Minute <s 0)"
  by (simp add: Minute_def Second_def word_sless_alt)

text \<open>
  expiry_from_max_age, as the code has it. For a response whose certificates all parse, take the parts of
  the Cache-Control header that start with \<open>max-age=\<close>, in order, and read each
  number. With no such part, or with the first one unparsable, the expiry is ten minutes.
  When all of them parse, the last one counts: a value from 0 to 9223372036 seconds, the
  largest that fits the 64-bit nanosecond count, is the expiry, and a negative value down
  to -9223372036 gives ten minutes.
\<close>

theorem expiry_from_max_age:
  assumes parsed: "parseCerts pem jsonCerts [] = Inr parsedCerts"
  shows "\<exists>expiry. fetchCerts pem (Response (Inr jsonCerts) cacheControl) = Inr (parsedCerts, expiry, None) \<and>
           (maxAgeValues cacheControl = [] \<longrightarrow> expiry = 10 * Minute) \<and>
           (maxAgeValues cacheControl = None # vs \<longrightarrow> expiry = 10 * Minute) \<and>
           (maxAgeValues cacheControl = map Some ns @ [Some n] \<and> 0 \<le> n \<and> n \<le> 9223372036 \<longrightarrow>
              expiry = word_of_int n * Second \<and> sint expiry = n * 1000000000) \<and>
           (maxAgeValues cacheControl = map Some ns @ [Some n] \<and> - 9223372036 \<le> n \<and> n < 0 \<longrightarrow>
              expiry = 10 * Minute)"
proof -
  let ?e = "lastMaxAge (maxAgeValues cacheControl) (10 * Minute)"
  let ?expiry = "if ?e <s 0 then 10 * Minute else ?e"
  have f: "fetchCerts pem (Response (Inr jsonCerts) cacheControl) = Inr (parsedCerts, ?expiry, None)"
    using fetchCerts_expiry [OF parsed] by (simp add: Let_def)
  have a: "maxAgeValues cacheControl = [] \<longrightarrow> ?expiry = 10 * Minute"
    by simp
  have b: "maxAgeValues cacheControl = None # vs \<longrightarrow> ?expiry = 10 * Minute"
    by simp
  have c: "maxAgeValues cacheControl = map Some ns @ [Some n] \<and> 0 \<le> n \<and> n \<le> 9223372036 \<longrightarrow>
              ?expiry = word_of_int n * Second \<and> sint ?expiry = n * 1000000000"
  proof
    assume h: "maxAgeValues cacheControl = map Some ns @ [Some n] \<and> 0 \<le> n \<and> n \<le> 9223372036"
    then have e: "?e = word_of_int n * Second" by (simp add: lastMaxAge_all_parse)
    have s: "sint (word_of_int n * Second) = n * 1000000000"
      using h by (intro sint_seconds) simp_all
    with h have "\<not> (word_of_int n * Second <s 0)" by (simp add: word_sless_alt)
    with e s show "?expiry = word_of_int n * Second \<and> sint ?expiry = n * 1000000000" by simp
  qed
  have d: "maxAgeValues cacheControl = map Some ns @ [Some n] \<and> - 9223372036 \<le> n \<and> n < 0 \<longrightarrow>
              ?expiry = 10 * Minute"
  proof
    assume h: "maxAgeValues cacheControl = map Some ns @ [Some n] \<and> - 9223372036 \<le> n \<and> n < 0"
    then have e: "?e = word_of_int n * Second" by (simp add: lastMaxAge_all_parse)
    have s: "sint (word_of_int n * Second) = n * 1000000000"
      using h by (intro sint_seconds) simp_all
    with h have "word_of_int n * Second <s 0" by (simp add: word_sless_alt)
    with e show "?expiry = 10 * Minute" by simp
  qed
  from f a b c d show ?thesis by blast
qed


lemmas string_defs = maxAgeValues_def TrimSpace_def TrimRightSpace_def HasPrefix_def Atoi_def
  isDigit_def decimal_def digitVal_def isSpace1_def isSpace2_def isSpace3_def

theorem expiry_from_max_age_witness:
  "parseCerts examplePem [(''k1'', ''abc'')] [] = Inr [(''k1'', exampleKey)] \<and>
   maxAgeValues ''public, max-age=120, must-revalidate'' = map Some [] @ [Some 120] \<and>
   fetchCerts examplePem (Response (Inr [(''k1'', ''abc'')]) ''public, max-age=120, must-revalidate'') =
     Inr ([(''k1'', exampleKey)], 120 * Second, None) \<and>
   maxAgeValues ''no-cache'' = [] \<and>
   fetchCerts examplePem (Response (Inr [(''k1'', ''abc'')]) ''no-cache'') =
     Inr ([(''k1'', exampleKey)], 10 * Minute, None) \<and>
   maxAgeValues ''max-age=abc'' = None # [] \<and>
   fetchCerts examplePem (Response (Inr [(''k1'', ''abc'')]) ''max-age=abc'') =
     Inr ([(''k1'', exampleKey)], 10 * Minute, None) \<and>
   maxAgeValues ''max-age=-5'' = map Some [] @ [Some (- 5)] \<and>
   fetchCerts examplePem (Response (Inr [(''k1'', ''abc'')]) ''max-age=-5'') =
     Inr ([(''k1'', exampleKey)], 10 * Minute, None)"
proof -
  have p: "parseCerts examplePem [(''k1'', ''abc'')] [] = Inr [(''k1'', exampleKey)]"
    by (simp add: example_defs)
  have v1: "maxAgeValues ''public, max-age=120, must-revalidate'' = map Some [] @ [Some 120]"
    by (simp add: string_defs)
  have v2: "maxAgeValues ''no-cache'' = []"
    by (simp add: string_defs)
  have v3: "maxAgeValues ''max-age=abc'' = None # []"
    by (simp add: string_defs)
  have v4: "maxAgeValues ''max-age=-5'' = map Some [] @ [Some (- 5)]"
    by (simp add: string_defs)
  from expiry_from_max_age [OF p, where cacheControl = "''public, max-age=120, must-revalidate''"
      and ns = "[]" and n = 120] v1
  have r1: "fetchCerts examplePem (Response (Inr [(''k1'', ''abc'')]) ''public, max-age=120, must-revalidate'') =
     Inr ([(''k1'', exampleKey)], 120 * Second, None)"
    by auto
  from expiry_from_max_age [OF p, where cacheControl = "''no-cache''"] v2
  have r2: "fetchCerts examplePem (Response (Inr [(''k1'', ''abc'')]) ''no-cache'') =
     Inr ([(''k1'', exampleKey)], 10 * Minute, None)"
    by auto
  from expiry_from_max_age [OF p, where cacheControl = "''max-age=abc''" and vs = "[]"] v3
  have r3: "fetchCerts examplePem (Response (Inr [(''k1'', ''abc'')]) ''max-age=abc'') =
     Inr ([(''k1'', exampleKey)], 10 * Minute, None)"
    by auto
  from expiry_from_max_age [OF p, where cacheControl = "''max-age=-5''" and ns = "[]" and n = "- 5"] v4
  have r4: "fetchCerts examplePem (Response (Inr [(''k1'', ''abc'')]) ''max-age=-5'') =
     Inr ([(''k1'', exampleKey)], 10 * Minute, None)"
    by auto
  from p v1 r1 v2 r2 v3 r3 v4 r4 show ?thesis by blast
qed

text \<open>
  expiry_from_max_age as stated fails for a large value: \<open>max-age=18446744074\<close> parses, its
  nanosecond count wraps to a small positive number that the sanity check lets through,
  and the expiry is about 0.29 seconds, neither the header's value nor the default.
\<close>

theorem expiry_wraps_for_large_max_age:
  "fetchCerts examplePem (Response (Inr [(''k1'', ''abc'')]) ''max-age=18446744074'') =
     Inr ([(''k1'', exampleKey)], 290448384, None) \<and>
   Atoi ''18446744074'' = Some 18446744074 \<and>
   sint (290448384 :: duration) \<noteq> 18446744074 * 1000000000 \<and>
   (290448384 :: duration) \<noteq> 10 * Minute"
  by (simp add: example_defs fetchCerts_def string_defs Second_def Minute_def word_sless_alt)

end
